theory Spec2Isabelle
  imports Main "HOL-Library.Word"
begin

section \<open>The audio reader of the nabu component\<close>

text \<open>
  A shallow embedding of \<^verbatim>\<open>esphome/components/nabu/audio_reader.cpp\<close>. The class
  \<^verbatim>\<open>AudioReader\<close> becomes a record of its member fields, every member function a
  function from the record to the updated record together with the returned value.
  Members keep their names without the final underscore (\<^verbatim>\<open>client_\<close> is \<open>client\<close>,
  \<^verbatim>\<open>http_read_\<close> is \<open>http_read\<close>), which a name cannot end with here.
  The code is compiled for the ESP32 only (\<^verbatim>\<open>#ifdef USE_ESP_IDF\<close>), where
  \<^verbatim>\<open>size_t\<close> and \<^verbatim>\<open>int\<close> are 32 bits wide: both are 32-bit words here, the
  second one read through \<open>sint\<close>.

  The collaborators of the class (the HTTP client of ESP-IDF, the ring buffer, the
  allocator, the scheduler) are not part of the source file. What a call to the HTTP client or
  to the allocator returns is an input of the model, and every call to them and to the
  scheduler is appended to the field \<open>calls\<close>, a log that the code itself does not have.
\<close>

subsection \<open>Data\<close>

type_synonym byte = "8 word"
type_synonym size_t = "32 word"
type_synonym c_int = "32 word"
type_synonym esp_err_t = int
type_synonym esp_http_client_handle_t = "nat option"

text \<open>The error codes of ESP-IDF that the file names (\<^verbatim>\<open>esp_err.h\<close>).\<close>

abbreviation ESP_OK :: esp_err_t where "ESP_OK \<equiv> 0"
abbreviation ESP_FAIL :: esp_err_t where "ESP_FAIL \<equiv> - 1"
abbreviation ESP_ERR_NO_MEM :: esp_err_t where "ESP_ERR_NO_MEM \<equiv> 257"
abbreviation ESP_ERR_INVALID_ARG :: esp_err_t where "ESP_ERR_INVALID_ARG \<equiv> 258"
abbreviation ESP_ERR_NOT_SUPPORTED :: esp_err_t where "ESP_ERR_NOT_SUPPORTED \<equiv> 262"

datatype MediaFileType = NONE | WAV | MP3 | FLAC

datatype AudioReaderState = READING | FINISHED | FAILED

text \<open>
  \<^verbatim>\<open>media_player::MediaFile\<close>: a pointer to the bytes, their number and the declared
  type. The bytes the pointer refers to are the list \<open>data_mf\<close>.
\<close>

record MediaFile =
  data_mf :: "byte list"
  length_mf :: size_t
  file_type_mf :: MediaFileType

text \<open>
  Modelled from the spec: the consumer buffer \<^verbatim>\<open>esphome::RingBuffer\<close>, whose code is
  not in the source file. It has a fixed capacity, reports its free space, and its bounded-wait
  write stores as many bytes of the span as fit without overwriting unread data and returns
  their number. \<open>stored\<close> holds the unread bytes, \<open>history\<close> every byte ever accepted,
  oldest first; the decoder task removes bytes from the front of \<open>stored\<close>.
\<close>

record RingBuffer =
  capacity :: size_t
  stored :: "byte list"
  history :: "byte list"

definition free_space :: "RingBuffer \<Rightarrow> nat" where
  "free_space rb = unat (capacity rb) - length (stored rb)"

definition free :: "RingBuffer \<Rightarrow> size_t" where
  "free rb = of_nat (free_space rb)"

definition write_without_replacement :: "RingBuffer \<Rightarrow> byte list \<Rightarrow> size_t \<times> RingBuffer" where
  "write_without_replacement rb bs =
     (let n = min (length bs) (free_space rb)
      in (of_nat n,
          rb\<lparr>stored := stored rb @ take n bs, history := history rb @ take n bs\<rparr>))"

definition consume :: "nat \<Rightarrow> RingBuffer \<Rightarrow> RingBuffer" where
  "consume n rb = rb\<lparr>stored := drop n (stored rb)\<rparr>"

text \<open>
  \<^verbatim>\<open>transfer_buffer_current_\<close> points either nowhere, or into the bytes of the current
  media file, or into the staging buffer; the number is the offset from the start.
\<close>

datatype pointer = Null | FileData nat | Staging nat

text \<open>The configuration that \<^verbatim>\<open>start\<close> hands to \<^verbatim>\<open>esp_http_client_init\<close>.\<close>

record esp_http_client_config_t =
  url :: string
  disable_auto_redirect :: bool
  max_redirection_count :: nat
  buffer_size :: nat
  keep_alive_enable :: bool
  timeout_ms :: nat
  crt_bundle_attach :: bool

text \<open>The calls to the collaborators that leave a trace, with their arguments.\<close>

datatype call =
    allocate size_t
  | deallocate size_t
  | esp_http_client_init esp_http_client_config_t
  | esp_http_client_open esp_http_client_handle_t
  | esp_http_client_fetch_headers esp_http_client_handle_t
  | esp_http_client_get_url esp_http_client_handle_t
  | esp_http_client_set_timeout_ms esp_http_client_handle_t nat
  | esp_http_client_is_complete_data_received esp_http_client_handle_t
  | esp_http_client_read esp_http_client_handle_t size_t
  | esp_http_client_close esp_http_client_handle_t
  | esp_http_client_cleanup esp_http_client_handle_t
  | vTaskDelay nat

record AudioReader =
  output_ring_buffer :: RingBuffer
  transfer_buffer_size :: size_t
  transfer_buffer :: "byte list option"
  transfer_buffer_current :: pointer
  transfer_buffer_length :: size_t
  current_media_file :: "MediaFile option"
  client :: esp_http_client_handle_t
  calls :: "call list"

text \<open>
  What the collaborators answer during one \<^verbatim>\<open>start\<close>: whether the allocator returns a
  buffer, the handle from \<^verbatim>\<open>esp_http_client_init\<close> (\<open>None\<close> is \<^verbatim>\<open>nullptr\<close>), the
  status of \<^verbatim>\<open>esp_http_client_open\<close>, the content length or negative error of
  \<^verbatim>\<open>esp_http_client_fetch_headers\<close>, the status of \<^verbatim>\<open>esp_http_client_get_url\<close> and
  the string it leaves in \<^verbatim>\<open>url\<close>, the status of \<^verbatim>\<open>esp_http_client_set_timeout_ms\<close>.
\<close>

record start_replies =
  allocate_reply :: bool
  init_reply :: esp_http_client_handle_t
  open_reply :: esp_err_t
  fetch_headers_reply :: int
  get_url_reply :: esp_err_t
  get_url_string :: string
  set_timeout_ms_reply :: esp_err_t

text \<open>
  What the session answers during one \<^verbatim>\<open>read\<close>: the result of
  \<^verbatim>\<open>esp_http_client_is_complete_data_received\<close>, the \<^verbatim>\<open>int\<close> that
  \<^verbatim>\<open>esp_http_client_read\<close> returns and the bytes it has put into the buffer.
\<close>

record read_replies =
  is_complete_reply :: bool
  read_reply :: c_int
  read_bytes :: "byte list"

subsection \<open>Helpers\<close>

definition record_call :: "call \<Rightarrow> AudioReader \<Rightarrow> AudioReader" where
  "record_call c s = s\<lparr>calls := calls s @ [c]\<rparr>"

text \<open>
  Modelled from the spec: \<^verbatim>\<open>str_endswith\<close> of \<^verbatim>\<open>esphome/core/helpers.h\<close>, which
  is not in the source file; the spec calls its result the suffix of the resolved URL.
\<close>

definition str_endswith :: "string \<Rightarrow> string \<Rightarrow> bool" where
  "str_endswith str ending =
     (length ending \<le> length str \<and> drop (length str - length ending) str = ending)"

text \<open>The \<open>n\<close> bytes that a pointer refers to (fewer where the region ends earlier).\<close>

fun region :: "byte list option \<Rightarrow> nat \<Rightarrow> nat \<Rightarrow> byte list" where
  "region None off n = []"
| "region (Some bs) off n = take n (drop off bs)"

fun bytes_at :: "AudioReader \<Rightarrow> pointer \<Rightarrow> nat \<Rightarrow> byte list" where
  "bytes_at s Null n = []"
| "bytes_at s (FileData off) n = region (map_option data_mf (current_media_file s)) off n"
| "bytes_at s (Staging off) n = region (transfer_buffer s) off n"

fun advance :: "pointer \<Rightarrow> nat \<Rightarrow> pointer" where
  "advance Null n = Null"
| "advance (FileData off) n = FileData (off + n)"
| "advance (Staging off) n = Staging (off + n)"

text \<open>The bytes of a buffer after a read has put \<open>new\<close> at its start.\<close>

definition overwrite :: "byte list \<Rightarrow> byte list \<Rightarrow> byte list" where
  "overwrite new old = take (length old) new @ drop (length new) old"

subsection \<open>Construction, allocation, teardown\<close>

text \<open>
  Modelled from the spec: the member initialisers of \<^verbatim>\<open>audio_reader.h\<close>, which is not in
  the source file. The constructor itself sets the ring buffer and the size; the spec's
  initial state is "no source": no buffer, no media file, no session.
\<close>

definition AudioReader_new :: "RingBuffer \<Rightarrow> size_t \<Rightarrow> AudioReader" where
  "AudioReader_new rb n =
     \<lparr>output_ring_buffer = rb,
      transfer_buffer_size = n,
      transfer_buffer = None,
      transfer_buffer_current = Null,
      transfer_buffer_length = 0,
      current_media_file = None,
      client = None,
      calls = []\<rparr>"

definition cleanup_connection :: "AudioReader \<Rightarrow> AudioReader" where
  "cleanup_connection s =
     (if client s \<noteq> None then
        (record_call (esp_http_client_cleanup (client s))
          (record_call (esp_http_client_close (client s)) s))\<lparr>client := None\<rparr>
      else s)"

definition AudioReader_delete :: "AudioReader \<Rightarrow> AudioReader" where
  "AudioReader_delete s =
     cleanup_connection
       (if transfer_buffer s \<noteq> None then
          (record_call (deallocate (transfer_buffer_size s)) s)\<lparr>transfer_buffer := None\<rparr>
        else s)"

text \<open>
  The allocator returns a buffer or \<^verbatim>\<open>nullptr\<close>, as \<open>ok\<close> says. The bytes of a new buffer
  are not initialised in the code; they are zero here.
\<close>

definition allocate_buffers :: "bool \<Rightarrow> AudioReader \<Rightarrow> esp_err_t \<times> AudioReader" where
  "allocate_buffers ok s =
     (let s1 =
        (if transfer_buffer s = None then
           (record_call (allocate (transfer_buffer_size s)) s)
             \<lparr>transfer_buffer :=
                (if ok then Some (replicate (unat (transfer_buffer_size s)) 0) else None)\<rparr>
         else s)
      in if transfer_buffer s1 = None then (ESP_ERR_NO_MEM, s1) else (ESP_OK, s1))"

subsection \<open>start\<close>

definition start_file ::
    "MediaFile \<Rightarrow> start_replies \<Rightarrow> AudioReader \<Rightarrow> esp_err_t \<times> MediaFileType \<times> AudioReader" where
  "start_file media_file env s =
     (case allocate_buffers (allocate_reply env) s of
        (err, s1) \<Rightarrow>
          if err \<noteq> ESP_OK then (err, NONE, s1)
          else (ESP_OK, file_type_mf media_file,
                s1\<lparr>current_media_file := Some media_file,
                   transfer_buffer_current := FileData 0,
                   transfer_buffer_length := length_mf media_file\<rparr>))"

text \<open>
  The configuration of the session, for a build with \<^verbatim>\<open>CONFIG_MBEDTLS_CERTIFICATE_BUNDLE\<close>:
  the certificate bundle is attached when \<^verbatim>\<open>https:\<close> occurs in the URI.
\<close>

fun str_contains :: "string \<Rightarrow> string \<Rightarrow> bool" where
  "str_contains [] sub = (sub = [])"
| "str_contains (c # cs) sub = (take (length sub) (c # cs) = sub \<or> str_contains cs sub)"

definition client_config :: "string \<Rightarrow> esp_http_client_config_t" where
  "client_config uri =
     \<lparr>url = uri, disable_auto_redirect = False, max_redirection_count = 10,
      buffer_size = 4 * 1024, keep_alive_enable = True, timeout_ms = 5000,
      crt_bundle_attach = str_contains uri ''https:''\<rparr>"

definition start_uri ::
    "string \<Rightarrow> start_replies \<Rightarrow> AudioReader \<Rightarrow> esp_err_t \<times> MediaFileType \<times> AudioReader" where
  "start_uri uri env s =
     (case allocate_buffers (allocate_reply env) s of
        (err, s1) \<Rightarrow>
          if err \<noteq> ESP_OK then (err, NONE, s1)
          else
            let s2 = cleanup_connection s1 in
            if uri = [] then (ESP_ERR_INVALID_ARG, NONE, s2)
            else
              let s3 = (record_call (esp_http_client_init (client_config uri)) s2)
                         \<lparr>client := init_reply env\<rparr> in
              if client s3 = None then (ESP_FAIL, NONE, s3)
              else
                let s4 = record_call (esp_http_client_open (client s3)) s3 in
                if open_reply env \<noteq> ESP_OK then (open_reply env, NONE, cleanup_connection s4)
                else
                  let s5 = record_call (esp_http_client_fetch_headers (client s4)) s4;
                      s6 = record_call (esp_http_client_get_url (client s5)) s5 in
                  if get_url_reply env \<noteq> ESP_OK
                  then (get_url_reply env, NONE, cleanup_connection s6)
                  else
                    let url_string = get_url_string env;
                        file_type =
                          (if str_endswith url_string ''.wav'' then WAV
                           else if str_endswith url_string ''.mp3'' then MP3
                           else if str_endswith url_string ''.flac'' then FLAC
                           else NONE) in
                    if file_type = NONE
                    then (ESP_ERR_NOT_SUPPORTED, NONE, cleanup_connection s6)
                    else
                      let s7 = record_call (esp_http_client_set_timeout_ms (client s6) 10) s6 in
                      if set_timeout_ms_reply env \<noteq> ESP_OK
                      then (set_timeout_ms_reply env, file_type, cleanup_connection s7)
                      else (ESP_OK, file_type,
                            s7\<lparr>transfer_buffer_current := Staging 0,
                               transfer_buffer_length := 0\<rparr>))"

subsection \<open>read\<close>

definition file_read :: "AudioReader \<Rightarrow> AudioReaderState \<times> AudioReader" where
  "file_read s =
     (if 0 < transfer_buffer_length s then
        (case write_without_replacement (output_ring_buffer s)
                (bytes_at s (transfer_buffer_current s) (unat (transfer_buffer_length s))) of
           (bytes_written, rb) \<Rightarrow>
             (READING,
              s\<lparr>output_ring_buffer := rb,
                transfer_buffer_length := transfer_buffer_length s - bytes_written,
                transfer_buffer_current :=
                  advance (transfer_buffer_current s) (unat bytes_written)\<rparr>))
      else (FINISHED, s))"

definition bytes_to_read :: "AudioReader \<Rightarrow> size_t" where
  "bytes_to_read s =
     (let space_available = free (output_ring_buffer s)
      in if space_available < transfer_buffer_size s then space_available
         else transfer_buffer_size s)"

definition http_read :: "read_replies \<Rightarrow> AudioReader \<Rightarrow> AudioReaderState \<times> AudioReader" where
  "http_read env s =
     (let s1 = record_call (esp_http_client_is_complete_data_received (client s)) s in
      if is_complete_reply env then (FINISHED, cleanup_connection s1)
      else
        let s2 = (record_call (esp_http_client_read (client s1) (bytes_to_read s1)) s1)
                   \<lparr>transfer_buffer :=
                      map_option (overwrite (read_bytes env)) (transfer_buffer s1)\<rparr>;
            received_len = read_reply env in
        if received_len <s 0 then (FAILED, cleanup_connection s2)
        else
          let s3 =
                (if 0 <s received_len then
                   s2\<lparr>output_ring_buffer :=
                        snd (write_without_replacement (output_ring_buffer s2)
                               (bytes_at s2 (Staging 0) (unat received_len)))\<rparr>
                 else s2);
              s4 =
                (if received_len * 4 < transfer_buffer_size s3 * 3
                 then record_call (vTaskDelay 20) s3
                 else s3)
          in (READING, s4))"

definition read :: "read_replies \<Rightarrow> AudioReader \<Rightarrow> AudioReaderState \<times> AudioReader" where
  "read env s =
     (if client s \<noteq> None then http_read env s
      else if current_media_file s \<noteq> None then file_read s
      else (FAILED, s))"

subsection \<open>Runs\<close>

text \<open>
  The caller polls \<^verbatim>\<open>read\<close> again and again while the decoder task takes bytes out
  of the ring buffer. A run is a list of events: a step with the session's answers, or the
  decoder removing up to \<open>n\<close> unread bytes. \<open>run\<close> returns what the steps returned, in
  order, and the final state.
\<close>

datatype event = Step read_replies | Drain nat

fun run :: "event list \<Rightarrow> AudioReader \<Rightarrow> AudioReaderState list \<times> AudioReader" where
  "run [] s = ([], s)"
| "run (Step env # evs) s =
     (case read env s of
        (r, s1) \<Rightarrow> (case run evs s1 of (rs, s2) \<Rightarrow> (r # rs, s2)))"
| "run (Drain n # evs) s =
     run evs (s\<lparr>output_ring_buffer := consume n (output_ring_buffer s)\<rparr>)"

text \<open>
  The state of a reader that is forwarding the media file \<open>mf\<close> and has no session, when the
  ring buffer had accepted the bytes \<open>h0\<close> before \<open>start\<close>: the remaining length is
  within the file, the cursor is at the first byte not yet forwarded, and the ring buffer has
  accepted the bytes before the cursor, in order.
\<close>

definition forwarding :: "MediaFile \<Rightarrow> byte list \<Rightarrow> AudioReader \<Rightarrow> bool" where
  "forwarding mf h0 s \<longleftrightarrow>
     client s = None \<and>
     current_media_file s = Some mf \<and>
     unat (transfer_buffer_length s) \<le> length (data_mf mf) \<and>
     transfer_buffer_current s =
       FileData (length (data_mf mf) - unat (transfer_buffer_length s)) \<and>
     history (output_ring_buffer s) =
       h0 @ take (length (data_mf mf) - unat (transfer_buffer_length s)) (data_mf mf)"

text \<open>
  A caller that polls \<open>m\<close> times while the decoder takes one byte before every step.
\<close>

fun polling :: "nat \<Rightarrow> read_replies \<Rightarrow> event list" where
  "polling 0 env = []"
| "polling (Suc m) env = Drain 1 # Step env # polling m env"

subsection \<open>Sample inputs\<close>

definition sample_ring :: RingBuffer where
  "sample_ring = \<lparr>capacity = 2, stored = [], history = []\<rparr>"

definition sample_replies :: start_replies where
  "sample_replies =
     \<lparr>allocate_reply = True, init_reply = Some 1, open_reply = ESP_OK,
      fetch_headers_reply = 1000, get_url_reply = ESP_OK,
      get_url_string = ''http://h/a.wav'', set_timeout_ms_reply = ESP_OK\<rparr>"

definition sample_file :: MediaFile where
  "sample_file = \<lparr>data_mf = [1, 2, 3, 4, 5], length_mf = 5, file_type_mf = MP3\<rparr>"

definition sample_reader :: AudioReader where
  "sample_reader = AudioReader_new sample_ring 4"

text \<open>A reader on which \<open>start\<close> with a URI has succeeded.\<close>

definition streaming_reader :: AudioReader where
  "streaming_reader = snd (snd (start_uri ''http://h/a.wav'' sample_replies sample_reader))"

text \<open>
  Answers of a session: one that delivers a byte, one that has nothing to deliver, one that
  reports all data received, one whose read fails; answers to \<open>start\<close> where fetching the
  headers fails and where the resolved URL ends in .ogg; a reader whose ring buffer is full.
\<close>

definition sample_step :: read_replies where
  "sample_step = \<lparr>is_complete_reply = False, read_reply = 1, read_bytes = [7]\<rparr>"

definition idle_read :: read_replies where
  "idle_read = \<lparr>is_complete_reply = False, read_reply = 0, read_bytes = []\<rparr>"


definition headers_fail_replies :: start_replies where
  "headers_fail_replies = sample_replies\<lparr>fetch_headers_reply := - 1\<rparr>"

text \<open>A reader on which \<open>start\<close> with the sample file has succeeded.\<close>

definition file_reader :: AudioReader where
  "file_reader = snd (snd (start_file sample_file sample_replies sample_reader))"

text \<open>Four polls of a caller, the decoder emptying the ring buffer after the first two.\<close>

definition sample_polls :: "event list" where
  "sample_polls =
     [Step idle_read, Drain 2, Step idle_read, Drain 2, Step idle_read, Step idle_read]"

definition full_reader :: AudioReader where
  "full_reader =
     streaming_reader\<lparr>output_ring_buffer := \<lparr>capacity = 2, stored = [8, 9], history = [8, 9]\<rparr>\<rparr>"

definition failing_read :: read_replies where
  "failing_read = \<lparr>is_complete_reply = False, read_reply = - 1, read_bytes = []\<rparr>"

definition ogg_replies :: start_replies where
  "ogg_replies = sample_replies\<lparr>get_url_string := ''http://h/a.ogg''\<rparr>"

section \<open>Properties\<close>

subsection \<open>Auxiliary facts\<close>

lemma calls_record_call: "calls (record_call c s) = calls s @ [c]"
  by (simp add: record_call_def)

lemma client_record_call: "client (record_call c s) = client s"
  by (simp add: record_call_def)

lemma client_cleanup_connection: "client (cleanup_connection s) = None"
  by (simp add: cleanup_connection_def record_call_def)

lemma cleanup_connection_idle: "client s = None \<Longrightarrow> cleanup_connection s = s"
  by (simp add: cleanup_connection_def)

lemma calls_cleanup_connection:
  "calls (cleanup_connection s) =
     calls s @ (if client s \<noteq> None
                then [esp_http_client_close (client s), esp_http_client_cleanup (client s)]
                else [])"
  by (simp add: cleanup_connection_def record_call_def)

lemma allocate_buffers_calls:
  "calls (snd (allocate_buffers ok s)) =
     calls s @ (if transfer_buffer s = None then [allocate (transfer_buffer_size s)] else [])"
  "client (snd (allocate_buffers ok s)) = client s"
  by (simp_all add: allocate_buffers_def record_call_def Let_def)

lemma unat_free: "unat (free rb) = free_space rb"
proof -
  have "unat (capacity rb) < 2 ^ 32"
    using unsigned_less [of "capacity rb", where 'a = nat] by simp
  then have "free_space rb < 2 ^ 32"
    by (simp add: free_space_def)
  then show ?thesis
    by (simp add: free_def unat_of_nat)
qed

lemma bytes_to_read_le: "uint (bytes_to_read s) \<le> uint (transfer_buffer_size s)"
  by (simp add: bytes_to_read_def Let_def word_less_def)

lemma unat_sub_of_nat:
  fixes len :: size_t
  assumes "n \<le> unat len"
  shows "unat (of_nat n :: size_t) = n" and "unat (len - of_nat n) = unat len - n"
proof -
  have "unat len < 2 ^ 32"
    using unsigned_less [of len, where 'a = nat] by simp
  with assms have "n < 2 ^ 32"
    by simp
  then show n: "unat (of_nat n :: size_t) = n"
    by (simp add: unat_of_nat)
  with assms have "(of_nat n :: size_t) \<le> len"
    by (simp add: word_le_nat_alt)
  then show "unat (len - of_nat n) = unat len - n"
    by (simp add: unat_sub n)
qed

lemma run_Step:
  "fst (run (Step env # evs) s) = fst (read env s) # fst (run evs (snd (read env s)))"
  "snd (run (Step env # evs) s) = snd (run evs (snd (read env s)))"
  by (simp_all split: prod.splits)

lemma replicate_4: "replicate 4 x = [x, x, x, x]"
  by (simp add: numeral_eq_Suc)

lemma streaming_reader_eq:
  "streaming_reader =
     \<lparr>output_ring_buffer = sample_ring, transfer_buffer_size = 4,
      transfer_buffer = Some [0, 0, 0, 0], transfer_buffer_current = Staging 0,
      transfer_buffer_length = 0, current_media_file = None, client = Some 1,
      calls = [allocate 4, esp_http_client_init (client_config ''http://h/a.wav''),
               esp_http_client_open (Some 1), esp_http_client_fetch_headers (Some 1),
               esp_http_client_get_url (Some 1), esp_http_client_set_timeout_ms (Some 1) 10]\<rparr>"
  by (simp add: streaming_reader_def start_uri_def sample_replies_def sample_reader_def
      AudioReader_new_def allocate_buffers_def record_call_def cleanup_connection_def
      str_endswith_def Let_def replicate_4)

lemma file_reader_eq:
  "file_reader =
     \<lparr>output_ring_buffer = sample_ring, transfer_buffer_size = 4,
      transfer_buffer = Some [0, 0, 0, 0], transfer_buffer_current = FileData 0,
      transfer_buffer_length = 5, current_media_file = Some sample_file, client = None,
      calls = [allocate 4]\<rparr>"
  by (simp add: file_reader_def start_file_def sample_replies_def sample_reader_def
      AudioReader_new_def allocate_buffers_def record_call_def sample_file_def replicate_4)

subsection \<open>Starting a source\<close>

text \<open>
  \<^verbatim>\<open>start\<close> with a media file leaves the session handle as it was and calls nothing but the
  allocator, whereas \<^verbatim>\<open>start\<close> with a URI begins with \<^verbatim>\<open>cleanup_connection_\<close>.
\<close>

lemma start_file_client: "client (snd (snd (start_file mf env s))) = client s"
  by (simp add: start_file_def allocate_buffers_def record_call_def Let_def
      split: prod.splits)

lemma start_file_calls:
  "calls (snd (snd (start_file mf env s))) =
     calls s @ (if transfer_buffer s = None then [allocate (transfer_buffer_size s)] else [])"
  by (simp add: start_file_def allocate_buffers_def record_call_def Let_def)

text \<open>
  Claim C1 says that after every successful \<^verbatim>\<open>start\<close> exactly one source, the memory view or
  the network session, is active, and that every \<^verbatim>\<open>start\<close>, with a media file as well as
  with a URI, first discards an existing session. The code does this for a URI only. On a
  reader whose session 1 is open, \<^verbatim>\<open>start\<close> with the sample file returns \<open>ESP_OK\<close>,
  keeps session 1 without any call to close it, and sets the media file beside it; the next
  \<^verbatim>\<open>read\<close> is the network step, and the byte that reaches the ring buffer is the byte 7 of
  the old session, not the first byte of the file.
\<close>

theorem start_file_keeps_session:
  "client streaming_reader = Some 1 \<and>
   fst (start_file sample_file sample_replies streaming_reader) = ESP_OK \<and>
   client (snd (snd (start_file sample_file sample_replies streaming_reader))) = Some 1 \<and>
   current_media_file (snd (snd (start_file sample_file sample_replies streaming_reader)))
     = Some sample_file \<and>
   calls (snd (snd (start_file sample_file sample_replies streaming_reader)))
     = calls streaming_reader \<and>
   read sample_step (snd (snd (start_file sample_file sample_replies streaming_reader)))
     = http_read sample_step (snd (snd (start_file sample_file sample_replies streaming_reader))) \<and>
   history (output_ring_buffer (snd (read sample_step
       (snd (snd (start_file sample_file sample_replies streaming_reader)))))) = [7]"
  by (simp add: streaming_reader_eq start_file_def allocate_buffers_def read_def http_read_def
      sample_step_def sample_ring_def record_call_def Let_def bytes_to_read_def free_def
      free_space_def overwrite_def write_without_replacement_def word_sless_alt)

text \<open>
  What \<^verbatim>\<open>esp_http_client_fetch_headers\<close> returns is stored in \<^verbatim>\<open>content_length\<close> and
  never looked at: \<^verbatim>\<open>start\<close> does the same whatever the value.
\<close>

lemma start_uri_fetch_headers_unused:
  "start_uri uri (env\<lparr>fetch_headers_reply := n\<rparr>) s = start_uri uri env s"
  by (simp add: start_uri_def Let_def cong: prod.case_cong if_cong)

text \<open>
  Claim C2 says that when fetching the response headers fails, \<^verbatim>\<open>start\<close> with a URI
  cleans the session up and returns a failure. In the code it does not: with
  \<^verbatim>\<open>esp_http_client_fetch_headers\<close> returning -1 and every other call succeeding,
  \<^verbatim>\<open>start\<close> returns \<open>ESP_OK\<close>, session 1 stays open, and neither
  \<^verbatim>\<open>esp_http_client_close\<close> nor \<^verbatim>\<open>esp_http_client_cleanup\<close> is called.
\<close>

theorem start_uri_ignores_header_failure:
  "fetch_headers_reply headers_fail_replies < 0 \<and>
   fst (start_uri ''http://h/a.wav'' headers_fail_replies sample_reader) = ESP_OK \<and>
   client (snd (snd (start_uri ''http://h/a.wav'' headers_fail_replies sample_reader))) = Some 1 \<and>
   calls (snd (snd (start_uri ''http://h/a.wav'' headers_fail_replies sample_reader))) =
     [allocate 4, esp_http_client_init (client_config ''http://h/a.wav''),
      esp_http_client_open (Some 1), esp_http_client_fetch_headers (Some 1),
      esp_http_client_get_url (Some 1), esp_http_client_set_timeout_ms (Some 1) 10]"
  by (simp add: start_uri_def headers_fail_replies_def sample_replies_def sample_reader_def
      AudioReader_new_def allocate_buffers_def record_call_def cleanup_connection_def
      str_endswith_def Let_def)

text \<open>
  Claim C8: when the staging buffer is there, the session has been opened and the resolved
  URL has been obtained, and that URL ends in none of .wav, .mp3 and .flac, then
  \<^verbatim>\<open>start\<close> with a URI returns \<open>ESP_ERR_NOT_SUPPORTED\<close>, reports the file type
  \<open>NONE\<close>, and leaves no open session: the session it has opened is closed and cleaned up,
  once each and as the last calls of \<^verbatim>\<open>start\<close>, the handle is null, and a further
  \<^verbatim>\<open>cleanup_connection_\<close> changes nothing. The calls of \<^verbatim>\<open>start\<close> are, in order, the
  allocation of the staging buffer if there was none, the release of a session that was open
  before, and then the initialisation, the opening, the fetching of the headers, the request
  for the URL, the closing and the cleanup of the new session.
\<close>

theorem start_uri_unsupported_suffix:
  assumes "fst (allocate_buffers (allocate_reply env) s) = ESP_OK"
    and "uri \<noteq> []"
    and "init_reply env \<noteq> None"
    and "open_reply env = ESP_OK"
    and "get_url_reply env = ESP_OK"
    and "\<not> str_endswith (get_url_string env) ''.wav''"
    and "\<not> str_endswith (get_url_string env) ''.mp3''"
    and "\<not> str_endswith (get_url_string env) ''.flac''"
  shows "fst (start_uri uri env s) = ESP_ERR_NOT_SUPPORTED \<and>
         fst (snd (start_uri uri env s)) = NONE \<and>
         client (snd (snd (start_uri uri env s))) = None \<and>
         cleanup_connection (snd (snd (start_uri uri env s))) = snd (snd (start_uri uri env s)) \<and>
         calls (snd (snd (start_uri uri env s))) =
           calls s @
           (if transfer_buffer s = None then [allocate (transfer_buffer_size s)] else []) @
           (if client s \<noteq> None
            then [esp_http_client_close (client s), esp_http_client_cleanup (client s)]
            else []) @
           [esp_http_client_init (client_config uri),
            esp_http_client_open (init_reply env),
            esp_http_client_fetch_headers (init_reply env),
            esp_http_client_get_url (init_reply env),
            esp_http_client_close (init_reply env),
            esp_http_client_cleanup (init_reply env)]"
proof -
  obtain err s1 where a: "allocate_buffers (allocate_reply env) s = (err, s1)"
    by (cases "allocate_buffers (allocate_reply env) s")
  with assms(1) have err: "err = ESP_OK"
    by simp
  from a allocate_buffers_calls [of "allocate_reply env" s]
  have s1: "calls s1 =
      calls s @ (if transfer_buffer s = None then [allocate (transfer_buffer_size s)] else [])"
    "client s1 = client s"
    by simp_all
  define s6 where "s6 =
    record_call (esp_http_client_get_url (init_reply env))
      (record_call (esp_http_client_fetch_headers (init_reply env))
        (record_call (esp_http_client_open (init_reply env))
          ((record_call (esp_http_client_init (client_config uri))
             (cleanup_connection s1))\<lparr>client := init_reply env\<rparr>)))"
  have r: "start_uri uri env s = (ESP_ERR_NOT_SUPPORTED, NONE, cleanup_connection s6)"
    using assms(2-8)
    by (simp add: start_uri_def a err Let_def client_record_call s6_def)
  have c6: "client s6 = init_reply env"
    by (simp add: s6_def record_call_def)
  have l6: "calls s6 =
      calls (cleanup_connection s1) @
        [esp_http_client_init (client_config uri),
         esp_http_client_open (init_reply env),
         esp_http_client_fetch_headers (init_reply env),
         esp_http_client_get_url (init_reply env)]"
    by (simp add: s6_def record_call_def)
  have "calls (cleanup_connection s6) =
      calls s6 @ [esp_http_client_close (init_reply env),
                  esp_http_client_cleanup (init_reply env)]"
    using assms(3) by (simp add: calls_cleanup_connection c6)
  then have "calls (cleanup_connection s6) =
           calls s @
           (if transfer_buffer s = None then [allocate (transfer_buffer_size s)] else []) @
           (if client s \<noteq> None
            then [esp_http_client_close (client s), esp_http_client_cleanup (client s)]
            else []) @
           [esp_http_client_init (client_config uri),
            esp_http_client_open (init_reply env),
            esp_http_client_fetch_headers (init_reply env),
            esp_http_client_get_url (init_reply env),
            esp_http_client_close (init_reply env),
            esp_http_client_cleanup (init_reply env)]"
    by (simp add: l6 calls_cleanup_connection s1)
  with r show ?thesis
    by (simp add: client_cleanup_connection cleanup_connection_idle)
qed

text \<open>
  The hypotheses of C8 hold for a URL that ends in .ogg, and \<^verbatim>\<open>start\<close> fails as stated:
  session 1 is opened, closed and cleaned up.
\<close>

theorem start_uri_unsupported_suffix_witness:
  "fst (allocate_buffers (allocate_reply ogg_replies) sample_reader) = ESP_OK \<and>
   ''http://h/a.ogg'' \<noteq> [] \<and>
   init_reply ogg_replies \<noteq> None \<and>
   open_reply ogg_replies = ESP_OK \<and>
   get_url_reply ogg_replies = ESP_OK \<and>
   \<not> str_endswith (get_url_string ogg_replies) ''.wav'' \<and>
   \<not> str_endswith (get_url_string ogg_replies) ''.mp3'' \<and>
   \<not> str_endswith (get_url_string ogg_replies) ''.flac'' \<and>
   fst (start_uri ''http://h/a.ogg'' ogg_replies sample_reader) = ESP_ERR_NOT_SUPPORTED \<and>
   fst (snd (start_uri ''http://h/a.ogg'' ogg_replies sample_reader)) = NONE \<and>
   client (snd (snd (start_uri ''http://h/a.ogg'' ogg_replies sample_reader))) = None \<and>
   cleanup_connection (snd (snd (start_uri ''http://h/a.ogg'' ogg_replies sample_reader))) =
     snd (snd (start_uri ''http://h/a.ogg'' ogg_replies sample_reader)) \<and>
   calls (snd (snd (start_uri ''http://h/a.ogg'' ogg_replies sample_reader))) =
     [allocate 4,
      esp_http_client_init (client_config ''http://h/a.ogg''),
      esp_http_client_open (Some 1),
      esp_http_client_fetch_headers (Some 1),
      esp_http_client_get_url (Some 1),
      esp_http_client_close (Some 1),
      esp_http_client_cleanup (Some 1)]"
proof -
  have h1: "fst (allocate_buffers (allocate_reply ogg_replies) sample_reader) = ESP_OK"
    by (simp add: allocate_buffers_def ogg_replies_def sample_replies_def sample_reader_def
        AudioReader_new_def record_call_def)
  have h2: "''http://h/a.ogg'' \<noteq> []" by simp
  have h3: "init_reply ogg_replies \<noteq> None"
    by (simp add: ogg_replies_def sample_replies_def)
  have h4: "open_reply ogg_replies = ESP_OK"
    by (simp add: ogg_replies_def sample_replies_def)
  have h5: "get_url_reply ogg_replies = ESP_OK"
    by (simp add: ogg_replies_def sample_replies_def)
  have h6: "\<not> str_endswith (get_url_string ogg_replies) ''.wav''"
    by (simp add: ogg_replies_def sample_replies_def str_endswith_def)
  have h7: "\<not> str_endswith (get_url_string ogg_replies) ''.mp3''"
    by (simp add: ogg_replies_def sample_replies_def str_endswith_def)
  have h8: "\<not> str_endswith (get_url_string ogg_replies) ''.flac''"
    by (simp add: ogg_replies_def sample_replies_def str_endswith_def)
  have c: "init_reply ogg_replies = Some 1" "calls sample_reader = []"
    "transfer_buffer sample_reader = None" "client sample_reader = None"
    "transfer_buffer_size sample_reader = 4"
    by (simp_all add: ogg_replies_def sample_replies_def sample_reader_def AudioReader_new_def)
  show ?thesis
    using start_uri_unsupported_suffix [OF h1 h2 h3 h4 h5 h6 h7 h8] h1 h3 h4 h5 h6 h7 h8
    by (simp add: c)
qed

text \<open>
  Claim C9: when the staging buffer is there, \<^verbatim>\<open>start\<close> with the empty URI returns
  \<open>ESP_ERR_INVALID_ARG\<close> with the file type \<open>NONE\<close> and opens no session. The calls it
  makes are the allocation of the staging buffer, if there was none, and the release of the
  session that was open before, if there was one; the HTTP client is not asked to initialise,
  open, fetch or read anything.
\<close>

theorem start_uri_empty:
  assumes "fst (allocate_buffers (allocate_reply env) s) = ESP_OK"
  shows "fst (start_uri [] env s) = ESP_ERR_INVALID_ARG \<and>
         fst (snd (start_uri [] env s)) = NONE \<and>
         client (snd (snd (start_uri [] env s))) = None \<and>
         calls (snd (snd (start_uri [] env s))) =
           calls s @
           (if transfer_buffer s = None then [allocate (transfer_buffer_size s)] else []) @
           (if client s \<noteq> None
            then [esp_http_client_close (client s), esp_http_client_cleanup (client s)]
            else [])"
  using assms
  by (auto simp add: start_uri_def allocate_buffers_def Let_def cleanup_connection_def
      record_call_def split: if_splits)

text \<open>
  On a new reader the only call of \<^verbatim>\<open>start\<close> with the empty URI is the allocation.
\<close>

theorem start_uri_empty_witness:
  "fst (allocate_buffers (allocate_reply sample_replies) sample_reader) = ESP_OK \<and>
   fst (start_uri [] sample_replies sample_reader) = ESP_ERR_INVALID_ARG \<and>
   fst (snd (start_uri [] sample_replies sample_reader)) = NONE \<and>
   client (snd (snd (start_uri [] sample_replies sample_reader))) = None \<and>
   calls (snd (snd (start_uri [] sample_replies sample_reader))) = [allocate 4]"
proof -
  have h: "fst (allocate_buffers (allocate_reply sample_replies) sample_reader) = ESP_OK"
    by (simp add: allocate_buffers_def sample_replies_def sample_reader_def AudioReader_new_def
        record_call_def)
  show ?thesis
    using start_uri_empty [OF h] h
    by (simp add: sample_reader_def AudioReader_new_def)
qed

subsection \<open>Steps on a media file\<close>

text \<open>
  \<open>forwarding\<close> holds after \<^verbatim>\<open>start\<close> with a media file on a reader without a session,
  and every step and every removal of bytes by the decoder keeps it. A step with bytes
  remaining hands the ring buffer all of them and advances by the number accepted, which is
  the smaller of the remaining length and the free space.
\<close>

lemma run_length_zero:
  assumes "client s = None" and "transfer_buffer_length s = 0"
  shows "transfer_buffer_length (snd (run evs s)) = 0"
  using assms
proof (induction evs arbitrary: s)
  case Nil
  then show ?case by simp
next
  case (Cons ev evs)
  show ?case
  proof (cases ev)
    case (Step env)
    from Cons.prems have "snd (read env s) = s"
      by (simp add: read_def file_read_def)
    with Cons.IH [OF Cons.prems] Step show ?thesis
      by (simp add: run_Step del: run.simps(2))
  next
    case (Drain n)
    with Cons.IH [of "s\<lparr>output_ring_buffer := consume n (output_ring_buffer s)\<rparr>"]
      Cons.prems
    show ?thesis
      by simp
  qed
qed

lemma forwarding_start_file:
  assumes "client s = None" and "unat (length_mf mf) = length (data_mf mf)"
    and "start_file mf env s = (ESP_OK, ft, s1)"
  shows "forwarding mf (history (output_ring_buffer s)) s1 \<and> ft = file_type_mf mf"
  using assms
  by (auto simp add: start_file_def allocate_buffers_def forwarding_def record_call_def Let_def
      split: if_splits)

lemma forwarding_file_read:
  assumes "forwarding mf h0 s" and "0 < transfer_buffer_length s"
  shows "fst (file_read s) = READING \<and> forwarding mf h0 (snd (file_read s)) \<and>
         unat (transfer_buffer_length (snd (file_read s))) =
           unat (transfer_buffer_length s) -
           min (unat (transfer_buffer_length s)) (free_space (output_ring_buffer s)) \<and>
         length (stored (output_ring_buffer (snd (file_read s)))) =
           length (stored (output_ring_buffer s)) +
           min (unat (transfer_buffer_length s)) (free_space (output_ring_buffer s)) \<and>
         capacity (output_ring_buffer (snd (file_read s))) = capacity (output_ring_buffer s)"
proof -
  define k where "k = unat (transfer_buffer_length s)"
  define off where "off = length (data_mf mf) - k"
  define n where "n = min k (free_space (output_ring_buffer s))"
  define s1 where "s1 =
    s\<lparr>output_ring_buffer :=
        (output_ring_buffer s)
          \<lparr>stored := stored (output_ring_buffer s) @ take n (drop off (data_mf mf)),
           history := history (output_ring_buffer s) @ take n (drop off (data_mf mf))\<rparr>,
      transfer_buffer_length := transfer_buffer_length s - of_nat n,
      transfer_buffer_current := FileData (off + unat (of_nat n :: size_t))\<rparr>"
  from assms(1) have k: "k \<le> length (data_mf mf)"
    and cur: "transfer_buffer_current s = FileData off"
    and mf: "current_media_file s = Some mf"
    and c: "client s = None"
    and h: "history (output_ring_buffer s) = h0 @ take off (data_mf mf)"
    by (simp_all add: forwarding_def k_def off_def)
  have span: "take k (drop off (data_mf mf)) = drop off (data_mf mf)"
    using k by (simp add: off_def)
  have len_span: "length (data_mf mf) - off = k"
    using k by (simp add: off_def)
  have le: "n \<le> unat (transfer_buffer_length s)"
    by (simp add: n_def k_def)
  have fr: "file_read s = (READING, s1)"
    using assms(2)
    by (simp add: file_read_def cur mf k_def [symmetric] span write_without_replacement_def
        Let_def len_span n_def [symmetric] s1_def)
  have l1: "unat (transfer_buffer_length s1) = k - n"
    using unat_sub_of_nat(2) [OF le] by (simp add: s1_def k_def)
  have off1: "length (data_mf mf) - (k - n) = off + n"
    using k le by (simp add: off_def k_def)
  have "transfer_buffer_current s1 = FileData (off + n)"
    using unat_sub_of_nat(1) [OF le] by (simp add: s1_def)
  moreover have "history (output_ring_buffer s1) = h0 @ take (off + n) (data_mf mf)"
    by (simp add: s1_def h take_add)
  moreover have "client s1 = None" and "current_media_file s1 = Some mf"
    by (simp_all add: s1_def c mf)
  moreover have "k - n \<le> length (data_mf mf)"
    using k by simp
  ultimately have "forwarding mf h0 s1"
    by (simp only: forwarding_def l1 off1 simp_thms)
  moreover have "length (stored (output_ring_buffer s1)) =
      length (stored (output_ring_buffer s)) + n"
    using k by (simp add: s1_def off_def n_def)
  moreover have "capacity (output_ring_buffer s1) = capacity (output_ring_buffer s)"
    by (simp add: s1_def)
  ultimately show ?thesis
    using l1 by (simp add: fr k_def [symmetric] n_def [symmetric])
qed

lemma forwarding_finished:
  assumes "forwarding mf h0 s"
  shows "fst (read env s) \<noteq> FAILED \<and> forwarding mf h0 (snd (read env s)) \<and>
         (fst (read env s) = FINISHED \<longrightarrow> transfer_buffer_length (snd (read env s)) = 0)"
proof (cases "0 < transfer_buffer_length s")
  case True
  from assms have "read env s = file_read s"
    by (simp add: read_def forwarding_def)
  with forwarding_file_read [OF assms True] show ?thesis
    by simp
next
  case False
  with assms have "read env s = (FINISHED, s)"
    by (simp add: read_def forwarding_def file_read_def)
  with assms False show ?thesis
    by (simp add: word_gt_0)
qed

lemma forwarding_drain:
  assumes "forwarding mf h0 s"
  shows "forwarding mf h0 (s\<lparr>output_ring_buffer := consume n (output_ring_buffer s)\<rparr>)"
  using assms by (simp add: forwarding_def consume_def)

lemma run_forwarding:
  assumes "forwarding mf h0 s"
  shows "forwarding mf h0 (snd (run evs s)) \<and> FAILED \<notin> set (fst (run evs s)) \<and>
         (FINISHED \<in> set (fst (run evs s)) \<longrightarrow>
            transfer_buffer_length (snd (run evs s)) = 0)"
  using assms
proof (induction evs arbitrary: s)
  case Nil
  then show ?case by simp
next
  case (Cons ev evs)
  show ?case
  proof (cases ev)
    case (Step env)
    note f = forwarding_finished [OF Cons.prems, of env]
    then have inv: "forwarding mf h0 (snd (read env s))"
      by simp
    note ih = Cons.IH [OF inv]
    show ?thesis
    proof (cases "fst (read env s) = FINISHED")
      case True
      with f have z: "transfer_buffer_length (snd (read env s)) = 0"
        by simp
      from inv have "client (snd (read env s)) = None"
        by (simp add: forwarding_def)
      from run_length_zero [OF this z, of evs] ih f Step show ?thesis
        by (auto simp add: run_Step simp del: run.simps(2))
    next
      case False
      with ih f Step show ?thesis
        by (auto simp add: run_Step simp del: run.simps(2))
    qed
  next
    case (Drain n)
    from Cons.IH [OF forwarding_drain [OF Cons.prems, of n]] Drain show ?thesis
      by simp
  qed
qed

lemma read_at_rest:
  assumes "client s = None"
    and "current_media_file s = None \<or> transfer_buffer_length s = 0"
  shows "read env s = (if current_media_file s = None then FAILED else FINISHED, s)"
  using assms by (auto simp add: read_def file_read_def)

lemma run_at_rest:
  assumes "client s = None"
    and "current_media_file s = None \<or> transfer_buffer_length s = 0"
  shows "(\<forall>r \<in> set (fst (run evs s)).
            r = (if current_media_file s = None then FAILED else FINISHED)) \<and>
         history (output_ring_buffer (snd (run evs s))) = history (output_ring_buffer s)"
  using assms
proof (induction evs arbitrary: s)
  case Nil
  then show ?case by simp
next
  case (Cons ev evs)
  show ?case
  proof (cases ev)
    case (Step env)
    with Cons.prems Cons.IH [OF Cons.prems] show ?thesis
      by (auto simp add: read_at_rest split: prod.splits)
  next
    case (Drain n)
    let ?s = "s\<lparr>output_ring_buffer := consume n (output_ring_buffer s)\<rparr>"
    have "client ?s = None"
      and "current_media_file ?s = None \<or> transfer_buffer_length ?s = 0"
      using Cons.prems by simp_all
    from Cons.IH [OF this] Drain show ?thesis
      by (simp add: consume_def)
  qed
qed

text \<open>
  Claim C3: let \<^verbatim>\<open>start\<close> with a media file of \<open>L\<close> bytes succeed on a reader without a
  session, whatever the size of the staging buffer, and let any run of steps and of removals
  by the decoder follow. The bytes that the ring buffer has accepted since are a prefix of the
  file, in order, of length \<open>L\<close> minus the remaining length. If one of the steps has returned
  \<open>FINISHED\<close>, they are exactly the \<open>L\<close> bytes of the file, and in any further run no step
  adds a byte, every step returning \<open>FINISHED\<close> again.
\<close>

theorem file_source_forwarded_in_order:
  assumes "client s = None"
    and "unat (length_mf mf) = length (data_mf mf)"
    and "start_file mf env s = (ESP_OK, ft, s1)"
  shows "history (output_ring_buffer (snd (run evs s1))) =
           history (output_ring_buffer s) @
           take (length (data_mf mf) - unat (transfer_buffer_length (snd (run evs s1))))
             (data_mf mf) \<and>
         (FINISHED \<in> set (fst (run evs s1)) \<longrightarrow>
            history (output_ring_buffer (snd (run evs s1))) =
              history (output_ring_buffer s) @ data_mf mf \<and>
            history (output_ring_buffer (snd (run evs' (snd (run evs s1))))) =
              history (output_ring_buffer (snd (run evs s1))) \<and>
            set (fst (run evs' (snd (run evs s1)))) \<subseteq> {FINISHED})"
proof -
  let ?s2 = "snd (run evs s1)"
  from forwarding_start_file [OF assms]
  have "forwarding mf (history (output_ring_buffer s)) s1"
    by simp
  note r = run_forwarding [OF this, of evs]
  then have inv: "forwarding mf (history (output_ring_buffer s)) ?s2"
    by simp
  then have prefix: "history (output_ring_buffer ?s2) =
           history (output_ring_buffer s) @
           take (length (data_mf mf) - unat (transfer_buffer_length ?s2)) (data_mf mf)"
    and c: "client ?s2 = None" and m: "current_media_file ?s2 = Some mf"
    by (simp_all add: forwarding_def)
  have "history (output_ring_buffer ?s2) = history (output_ring_buffer s) @ data_mf mf \<and>
        history (output_ring_buffer (snd (run evs' ?s2))) = history (output_ring_buffer ?s2) \<and>
        set (fst (run evs' ?s2)) \<subseteq> {FINISHED}"
    if "FINISHED \<in> set (fst (run evs s1))"
  proof -
    from r that have z: "transfer_buffer_length ?s2 = 0"
      by simp
    then have "current_media_file ?s2 = None \<or> transfer_buffer_length ?s2 = 0"
      by simp
    from run_at_rest [OF c this, of evs'] prefix z m show ?thesis
      by auto
  qed
  with prefix show ?thesis
    by blast
qed

lemma sample_polls_run:
  "fst (run sample_polls file_reader) = [READING, READING, READING, FINISHED]"
  by (simp add: sample_polls_def file_reader_eq read_def file_read_def
      write_without_replacement_def free_space_def consume_def sample_ring_def sample_file_def)

text \<open>
  The sample file of five bytes and a ring buffer of capacity two: the fourth step returns
  \<open>FINISHED\<close> after the five bytes have been accepted, and later steps add nothing.
\<close>

theorem file_source_forwarded_in_order_witness:
  "client sample_reader = None \<and>
   unat (length_mf sample_file) = length (data_mf sample_file) \<and>
   start_file sample_file sample_replies sample_reader = (ESP_OK, MP3, file_reader) \<and>
   fst (run sample_polls file_reader) = [READING, READING, READING, FINISHED] \<and>
   history (output_ring_buffer (snd (run sample_polls file_reader))) = [1, 2, 3, 4, 5] \<and>
   history (output_ring_buffer
     (snd (run [Step idle_read, Drain 1, Step idle_read] (snd (run sample_polls file_reader)))))
     = [1, 2, 3, 4, 5] \<and>
   set (fst (run [Step idle_read, Drain 1, Step idle_read] (snd (run sample_polls file_reader))))
     \<subseteq> {FINISHED}"
proof -
  have h1: "client sample_reader = None"
    by (simp add: sample_reader_def AudioReader_new_def)
  have h2: "unat (length_mf sample_file) = length (data_mf sample_file)"
    by (simp add: sample_file_def)
  have h3: "start_file sample_file sample_replies sample_reader = (ESP_OK, MP3, file_reader)"
    by (simp add: file_reader_def start_file_def sample_replies_def sample_reader_def
        AudioReader_new_def allocate_buffers_def record_call_def sample_file_def)
  have d: "history (output_ring_buffer sample_reader) = []" "data_mf sample_file = [1, 2, 3, 4, 5]"
    by (simp_all add: sample_reader_def AudioReader_new_def sample_ring_def sample_file_def)
  have fin: "FINISHED \<in> set (fst (run sample_polls file_reader))"
    by (simp add: sample_polls_run)
  from file_source_forwarded_in_order [OF h1 h2 h3, of sample_polls
        "[Step idle_read, Drain 1, Step idle_read]"] fin
  have "history (output_ring_buffer (snd (run sample_polls file_reader))) =
          history (output_ring_buffer sample_reader) @ data_mf sample_file \<and>
        history (output_ring_buffer
          (snd (run [Step idle_read, Drain 1, Step idle_read]
             (snd (run sample_polls file_reader))))) =
          history (output_ring_buffer (snd (run sample_polls file_reader))) \<and>
        set (fst (run [Step idle_read, Drain 1, Step idle_read]
           (snd (run sample_polls file_reader)))) \<subseteq> {FINISHED}"
    by blast
  with h1 h2 h3 show ?thesis
    by (simp add: sample_polls_run d del: run.simps)
qed

text \<open>
  \<open>FINISHED\<close> is reached: when the ring buffer holds no more than its capacity, which is
  not zero, and the decoder takes a byte before every step, then the step number \<open>L + 1\<close>
  at the latest returns \<open>FINISHED\<close>.
\<close>

lemma polling_finishes:
  assumes "forwarding mf h0 s"
    and "0 < capacity (output_ring_buffer s)"
    and "length (stored (output_ring_buffer s)) \<le> unat (capacity (output_ring_buffer s))"
    and "unat (transfer_buffer_length s) \<le> m"
  shows "last (fst (run (polling (Suc m) env) s)) = FINISHED"
  using assms
proof (induction m arbitrary: s)
  case 0
  let ?s = "s\<lparr>output_ring_buffer := consume 1 (output_ring_buffer s)\<rparr>"
  from "0.prems" have "client ?s = None" and "current_media_file ?s = Some mf"
    and "transfer_buffer_length ?s = 0"
    by (simp_all add: forwarding_def unat_eq_0)
  then have "read env ?s = (FINISHED, ?s)"
    by (simp add: read_def file_read_def)
  then show ?case
    by simp
next
  case (Suc m)
  define s0 where "s0 = s\<lparr>output_ring_buffer := consume 1 (output_ring_buffer s)\<rparr>"
  define t where "t = snd (read env s0)"
  define k where "k = unat (transfer_buffer_length s0)"
  define f where "f = free_space (output_ring_buffer s0)"
  have fw: "forwarding mf h0 s0"
    unfolding s0_def by (rule forwarding_drain [OF Suc.prems(1)])
  have cap0: "capacity (output_ring_buffer s0) = capacity (output_ring_buffer s)"
    by (simp add: s0_def consume_def)
  have cap: "0 < unat (capacity (output_ring_buffer s))"
    using Suc.prems(2) by (simp add: word_less_nat_alt)
  have room: "0 < f"
    using cap Suc.prems(3) by (simp add: f_def s0_def free_space_def consume_def)
  have st: "length (stored (output_ring_buffer s0)) + f = unat (capacity (output_ring_buffer s0))"
    using Suc.prems(3) by (simp add: f_def s0_def free_space_def consume_def)
  have km: "k \<le> Suc m"
    using Suc.prems(4) by (simp add: k_def s0_def)
  have "forwarding mf h0 t \<and> 0 < capacity (output_ring_buffer t) \<and>
        length (stored (output_ring_buffer t)) \<le> unat (capacity (output_ring_buffer t)) \<and>
        unat (transfer_buffer_length t) \<le> m"
  proof (cases "0 < transfer_buffer_length s0")
    case True
    from fw have rd: "read env s0 = file_read s0"
      by (simp add: read_def forwarding_def)
    from True have pos: "0 < k"
      by (simp add: k_def word_less_nat_alt)
    from forwarding_file_read [OF fw True]
    have "forwarding mf h0 t" and "unat (transfer_buffer_length t) = k - min k f"
      and "length (stored (output_ring_buffer t)) =
             length (stored (output_ring_buffer s0)) + min k f"
      and "capacity (output_ring_buffer t) = capacity (output_ring_buffer s0)"
      by (simp_all add: t_def rd k_def f_def)
    with room pos st km Suc.prems(2) cap0 show ?thesis
      by (simp add: min_def split: if_splits)
  next
    case False
    with fw have "read env s0 = (FINISHED, s0)"
      by (simp add: read_def forwarding_def file_read_def)
    with fw st False Suc.prems(2) cap0 show ?thesis
      by (simp add: t_def word_gt_0)
  qed
  then have "last (fst (run (polling (Suc m) env) t)) = FINISHED"
    using Suc.IH [of t] by simp
  moreover have "fst (run (polling (Suc (Suc m)) env) s) =
      fst (read env s0) # fst (run (polling (Suc m) env) t)"
    by (simp add: run_Step s0_def t_def del: run.simps(2))
  moreover have "fst (run (polling (Suc m) env) t) \<noteq> []"
    by (simp add: run_Step del: run.simps(2))
  ultimately show ?case
    by (simp del: run.simps polling.simps)
qed

lemma file_source_finishes:
  assumes "client s = None"
    and "unat (length_mf mf) = length (data_mf mf)"
    and "start_file mf env s = (ESP_OK, ft, s1)"
    and "0 < capacity (output_ring_buffer s)"
    and "length (stored (output_ring_buffer s)) \<le> unat (capacity (output_ring_buffer s))"
  shows "last (fst (run (polling (Suc (length (data_mf mf))) env') s1)) = FINISHED"
proof -
  from forwarding_start_file [OF assms(1-3)]
  have fw: "forwarding mf (history (output_ring_buffer s)) s1"
    by simp
  from assms(3) have "output_ring_buffer s1 = output_ring_buffer s"
    and "transfer_buffer_length s1 = length_mf mf"
    by (auto simp add: start_file_def allocate_buffers_def record_call_def Let_def
        split: if_splits)
  with assms(2,4,5) show ?thesis
    by (intro polling_finishes [OF fw]) simp_all
qed

subsection \<open>Steps on a session\<close>

text \<open>
  Claim C4 says that every network step requests the minimum of the staging capacity and the
  free space of the ring buffer, and that with a full ring buffer no read is requested. The
  second part fails: on a reader whose ring buffer is full, the step calls
  \<^verbatim>\<open>esp_http_client_read\<close> with the size 0.
\<close>

theorem full_buffer_read_counterexample:
  "client full_reader \<noteq> None \<and>
   free_space (output_ring_buffer full_reader) = 0 \<and>
   calls (snd (read idle_read full_reader)) =
     calls full_reader @
       [esp_http_client_is_complete_data_received (Some 1),
        esp_http_client_read (Some 1) 0,
        vTaskDelay 20]"
  by (simp add: full_reader_def streaming_reader_eq read_def http_read_def idle_read_def
      record_call_def Let_def bytes_to_read_def free_def free_space_def overwrite_def
      word_sless_alt)

text \<open>
  Claim C4, amended: on every network step where the session has not reported all data
  received, \<^verbatim>\<open>esp_http_client_read\<close> is called exactly once, and the size it is given is
  the minimum of the staging capacity and the free space of the ring buffer; this holds for a
  full ring buffer too, where the size is 0. The calls of the step are the completeness
  check, the read, and then the release of the session after a negative result, or the delay,
  or nothing.
\<close>

theorem read_quota:
  assumes "client s \<noteq> None" and "\<not> is_complete_reply env"
  shows "unat (bytes_to_read s) =
           min (unat (transfer_buffer_size s)) (free_space (output_ring_buffer s)) \<and>
         calls (snd (read env s)) =
           calls s @
           [esp_http_client_is_complete_data_received (client s),
            esp_http_client_read (client s) (bytes_to_read s)] @
           (if read_reply env <s 0
            then [esp_http_client_close (client s), esp_http_client_cleanup (client s)]
            else if read_reply env * 4 < transfer_buffer_size s * 3 then [vTaskDelay 20]
            else [])"
proof -
  have "unat (bytes_to_read s) =
          min (unat (transfer_buffer_size s)) (free_space (output_ring_buffer s))"
    by (simp add: bytes_to_read_def Let_def word_less_nat_alt unat_free min_def)
  moreover have "calls (snd (read env s)) =
           calls s @
           [esp_http_client_is_complete_data_received (client s),
            esp_http_client_read (client s) (bytes_to_read s)] @
           (if read_reply env <s 0
            then [esp_http_client_close (client s), esp_http_client_cleanup (client s)]
            else if read_reply env * 4 < transfer_buffer_size s * 3 then [vTaskDelay 20]
            else [])"
    using assms
    by (simp add: read_def http_read_def Let_def cleanup_connection_def record_call_def
        bytes_to_read_def)
  ultimately show ?thesis by simp
qed

text \<open>
  With a staging buffer of 4 bytes and 2 bytes free in the ring buffer the request is for 2.
\<close>

theorem read_quota_witness:
  "client streaming_reader \<noteq> None \<and> \<not> is_complete_reply sample_step \<and>
   unat (bytes_to_read streaming_reader) = 2 \<and>
   calls (snd (read sample_step streaming_reader)) =
     calls streaming_reader @
       [esp_http_client_is_complete_data_received (Some 1),
        esp_http_client_read (Some 1) 2,
        vTaskDelay 20]"
proof -
  have h1: "client streaming_reader \<noteq> None"
    by (simp add: streaming_reader_eq)
  have h2: "\<not> is_complete_reply sample_step"
    by (simp add: sample_step_def)
  have q: "bytes_to_read streaming_reader = 2"
    by (simp add: streaming_reader_eq bytes_to_read_def free_def free_space_def sample_ring_def)
  have c: "client streaming_reader = Some 1" "transfer_buffer_size streaming_reader = 4"
    "free_space (output_ring_buffer streaming_reader) = 2"
    by (simp_all add: streaming_reader_eq free_space_def sample_ring_def)
  have r: "read_reply sample_step = 1"
    by (simp add: sample_step_def)
  show ?thesis
    using read_quota [OF h1 h2] h1 h2 by (simp add: q c r word_sless_alt)
qed

text \<open>
  Claim C6: on a network step where the session has not reported all data received and the
  read returns a negative value, the step returns \<open>FAILED\<close>; the session is closed and
  cleaned up once, after which the handle is null, and a further
  \<^verbatim>\<open>cleanup_connection_\<close> changes nothing and calls nothing.
\<close>

theorem negative_read_fails_and_releases:
  assumes "client s \<noteq> None" and "\<not> is_complete_reply env" and "read_reply env <s 0"
  shows "fst (read env s) = FAILED \<and>
         client (snd (read env s)) = None \<and>
         calls (snd (read env s)) =
           calls s @ [esp_http_client_is_complete_data_received (client s),
                      esp_http_client_read (client s) (bytes_to_read s),
                      esp_http_client_close (client s),
                      esp_http_client_cleanup (client s)] \<and>
         cleanup_connection (snd (read env s)) = snd (read env s)"
  using assms
  by (simp add: read_def http_read_def Let_def cleanup_connection_def record_call_def
      bytes_to_read_def)

text \<open>
  A read that returns -1 on the sample session.
\<close>

theorem negative_read_fails_and_releases_witness:
  "client streaming_reader \<noteq> None \<and> \<not> is_complete_reply failing_read \<and>
   read_reply failing_read <s 0 \<and>
   fst (read failing_read streaming_reader) = FAILED \<and>
   client (snd (read failing_read streaming_reader)) = None \<and>
   calls (snd (read failing_read streaming_reader)) =
     calls streaming_reader @
       [esp_http_client_is_complete_data_received (Some 1),
        esp_http_client_read (Some 1) 2,
        esp_http_client_close (Some 1),
        esp_http_client_cleanup (Some 1)] \<and>
   cleanup_connection (snd (read failing_read streaming_reader)) =
     snd (read failing_read streaming_reader)"
proof -
  have h1: "client streaming_reader \<noteq> None"
    by (simp add: streaming_reader_eq)
  have h2: "\<not> is_complete_reply failing_read"
    by (simp add: failing_read_def)
  have h3: "read_reply failing_read <s 0"
    by (simp add: failing_read_def word_sless_alt)
  have q: "bytes_to_read streaming_reader = 2"
    by (simp add: streaming_reader_eq bytes_to_read_def free_def free_space_def sample_ring_def)
  have c: "client streaming_reader = Some 1"
    by (simp add: streaming_reader_eq)
  show ?thesis
    using negative_read_fails_and_releases [OF h1 h2 h3] h1 h2 h3 by (simp add: q c)
qed

text \<open>
  A network step returns \<open>READING\<close> only when the session has not reported all data
  received and the read has returned a value that is not negative.
\<close>

lemma reading_step:
  assumes "client s \<noteq> None" and "fst (read env s) = READING"
  shows "\<not> is_complete_reply env \<and> \<not> read_reply env <s 0"
  using assms
  by (auto simp add: read_def http_read_def Let_def split: if_splits)

text \<open>
  Claim C7: on a network step that returns \<open>READING\<close>, \<^verbatim>\<open>vTaskDelay\<close> is called if and
  only if four times the number of bytes received is less than three times the staging
  capacity, that is, if fewer than 3/4 of the capacity have been received. The code computes
  \<^verbatim>\<open>received_len * 4\<close> as an \<^verbatim>\<open>int\<close> and \<^verbatim>\<open>transfer_buffer_size_ * 3\<close> as a
  \<^verbatim>\<open>size_t\<close>, both of 32 bits; the statement is for the values whose products are in
  range.
\<close>

theorem pacing_delay:
  assumes "client s \<noteq> None" and "fst (read env s) = READING"
    and "4 * sint (read_reply env) < 2 ^ 31"
    and "3 * uint (transfer_buffer_size s) < 2 ^ 32"
  shows "vTaskDelay 20 \<in> set (drop (length (calls s)) (calls (snd (read env s)))) \<longleftrightarrow>
         4 * sint (read_reply env) < 3 * uint (transfer_buffer_size s)"
proof -
  let ?r = "read_reply env" and ?S = "transfer_buffer_size s"
  from reading_step [OF assms(1,2)]
  have nc: "\<not> is_complete_reply env" and nn: "\<not> ?r <s 0"
    by simp_all
  from nn have "0 \<le> sint ?r"
    by (simp add: word_sless_alt)
  moreover have "sint ?r < 2 ^ 31"
    using sint_lt [of ?r] by simp
  then have "sint ?r < 2 ^ 32"
    by simp
  ultimately have "take_bit 32 (sint ?r) = sint ?r"
    by (rule take_bit_int_eq_self)
  then have sr: "sint ?r = uint ?r"
    using uint_sint [of ?r] by simp
  have "uint (?r * 4) = (uint ?r * 4) mod 4294967296"
    by (simp add: uint_word_ariths)
  moreover have "0 \<le> uint ?r * 4" and "uint ?r * 4 < 4294967296"
    using assms(3) sr by simp_all
  ultimately have r4: "uint (?r * 4) = uint ?r * 4"
    by (simp only: mod_pos_pos_trivial)
  have "uint (?S * 3) = (uint ?S * 3) mod 4294967296"
    by (simp add: uint_word_ariths)
  moreover have "0 \<le> uint ?S * 3" and "uint ?S * 3 < 4294967296"
    using assms(4) by simp_all
  ultimately have S3: "uint (?S * 3) = uint ?S * 3"
    by (simp only: mod_pos_pos_trivial)
  have cmp: "?r * 4 < ?S * 3 \<longleftrightarrow> 4 * sint ?r < 3 * uint ?S"
    by (simp add: word_less_def r4 S3 sr mult.commute)
  have "calls (snd (read env s)) =
          calls s @ [esp_http_client_is_complete_data_received (client s),
                     esp_http_client_read (client s) (bytes_to_read s)] @
          (if ?r * 4 < ?S * 3 then [vTaskDelay 20] else [])"
    using assms(1) nc nn
    by (simp add: read_def http_read_def Let_def record_call_def bytes_to_read_def)
  then show ?thesis
    by (simp add: cmp)
qed

text \<open>
  One byte received into a staging buffer of four: the step delays.
\<close>

theorem pacing_delay_witness:
  "client streaming_reader \<noteq> None \<and>
   fst (read sample_step streaming_reader) = READING \<and>
   4 * sint (read_reply sample_step) < 2 ^ 31 \<and>
   3 * uint (transfer_buffer_size streaming_reader) < 2 ^ 32 \<and>
   vTaskDelay 20 \<in> set (drop (length (calls streaming_reader))
                            (calls (snd (read sample_step streaming_reader)))) \<and>
   4 * sint (read_reply sample_step) < 3 * uint (transfer_buffer_size streaming_reader)"
proof -
  have h1: "client streaming_reader \<noteq> None"
    by (simp add: streaming_reader_eq)
  have h2: "fst (read sample_step streaming_reader) = READING"
    by (simp add: streaming_reader_eq read_def http_read_def sample_step_def Let_def
        word_sless_alt)
  have h3: "4 * sint (read_reply sample_step) < 2 ^ 31"
    by (simp add: sample_step_def)
  have h4: "3 * uint (transfer_buffer_size streaming_reader) < 2 ^ 32"
    by (simp add: streaming_reader_eq)
  have c: "4 * sint (read_reply sample_step) < 3 * uint (transfer_buffer_size streaming_reader)"
    by (simp add: streaming_reader_eq sample_step_def)
  show ?thesis
    using pacing_delay [OF h1 h2 h3 h4] h1 h2 h3 h4 c by simp
qed

text \<open>
  The products are in range whenever the staging buffer is smaller than \<open>2 ^ 29\<close> bytes and
  the read returns no more than it was asked for.
\<close>

lemma products_in_range:
  assumes "sint (read_reply env) \<le> uint (bytes_to_read s)"
    and "unat (transfer_buffer_size s) < 2 ^ 29"
  shows "4 * sint (read_reply env) < 2 ^ 31 \<and> 3 * uint (transfer_buffer_size s) < 2 ^ 32"
proof -
  have "uint (transfer_buffer_size s) = int (unat (transfer_buffer_size s))"
    by simp
  moreover from assms(2) have "unat (transfer_buffer_size s) < 536870912"
    by simp
  ultimately have "uint (transfer_buffer_size s) < 536870912"
    by linarith
  with assms(1) bytes_to_read_le [of s] show ?thesis
    by simp
qed

subsection \<open>Terminal states\<close>






text \<open>
  Claim C10: on a reader with neither a session nor a media file, \<^verbatim>\<open>read\<close> returns
  \<open>FAILED\<close> and leaves the reader as it was: no call to the HTTP client is made and
  nothing is written to the ring buffer.
\<close>

theorem read_without_source:
  "client s = None \<Longrightarrow> current_media_file s = None \<Longrightarrow> read env s = (FAILED, s)"
  by (simp add: read_def)

text \<open>
  A newly constructed reader is such a reader.
\<close>

theorem read_without_source_witness:
  "client sample_reader = None \<and> current_media_file sample_reader = None \<and>
   read \<lparr>is_complete_reply = False, read_reply = 1, read_bytes = [7]\<rparr> sample_reader
     = (FAILED, sample_reader)"
  using read_without_source [of sample_reader "\<lparr>is_complete_reply = False, read_reply = 1, read_bytes = [7]\<rparr>"]
  by (simp add: sample_reader_def AudioReader_new_def)

end
